theory Spec2Isabelle
  imports Complex_Main
begin

section \<open>JavaScript strings\<close>

text \<open>
  A JavaScript string is modelled as a \<^typ>\<open>string\<close>: one \<^typ>\<open>char\<close> per code unit, for
  the code units below 256. The white space of \<open>\s\<close> and of \<open>String.prototype.trim\<close> in
  that range is TAB, LF, VT, FF, CR, SPACE and NBSP.
\<close>

definition LF :: char where
  "LF = CHR 0x0A"

definition TAB :: char where
  "TAB = CHR 0x09"

definition BACKSLASH :: char where
  "BACKSLASH = CHR 0x5C"

definition DQUOTE :: char where
  "DQUOTE = CHR 0x22"

definition SQUOTE :: char where
  "SQUOTE = CHR 0x27"

definition white_space :: "char list" where
  "white_space = [CHR 0x09, CHR 0x0A, CHR 0x0B, CHR 0x0C, CHR 0x0D, CHR 0x20, CHR 0xA0]"

definition is_space :: "char \<Rightarrow> bool" where
  "is_space c = (c \<in> set white_space)"

text \<open>\<open>s.trim()\<close>\<close>

definition trim :: "string \<Rightarrow> string" where
  "trim s = rev (dropWhile is_space (rev (dropWhile is_space s)))"

definition upper_chars :: "char list" where
  "upper_chars = ''ABCDEFGHIJKLMNOPQRSTUVWXYZ''"

definition lower_chars :: "char list" where
  "lower_chars = ''abcdefghijklmnopqrstuvwxyz''"

definition lower_char :: "char \<Rightarrow> char" where
  "lower_char c = (case map_of (zip upper_chars lower_chars) c of Some d \<Rightarrow> d | None \<Rightarrow> c)"

definition upper_char :: "char \<Rightarrow> char" where
  "upper_char c = (case map_of (zip lower_chars upper_chars) c of Some d \<Rightarrow> d | None \<Rightarrow> c)"

text \<open>\<open>s.toLowerCase()\<close>, on the letters A to Z.\<close>

definition toLowerCase :: "string \<Rightarrow> string" where
  "toLowerCase s = map lower_char s"

text \<open>\<open>s.startsWith(p)\<close> and \<open>s.includes(p)\<close>\<close>

fun startsWith :: "string \<Rightarrow> string \<Rightarrow> bool" where
  "startsWith s [] = True"
| "startsWith [] (p # ps) = False"
| "startsWith (c # cs) (p # ps) = (c = p \<and> startsWith cs ps)"

fun str_includes :: "string \<Rightarrow> string \<Rightarrow> bool" where
  "str_includes [] p = (p = [])"
| "str_includes (c # cs) p = (startsWith (c # cs) p \<or> str_includes cs p)"

text \<open>
  Truthiness of a \<open>string | undefined\<close> value, and the \<open>||\<close> operator on such values:
  \<open>undefined\<close> and the empty string are falsy.
\<close>

definition truthy :: "string option \<Rightarrow> bool" where
  "truthy v = (case v of None \<Rightarrow> False | Some s \<Rightarrow> s \<noteq> [])"

definition js_or :: "string option \<Rightarrow> string option \<Rightarrow> string option" where
  "js_or a b = (if truthy a then a else b)"

text \<open>\<open>a || s\<close> where \<open>s\<close> is a string: the result is a string.\<close>

definition js_or_str :: "string option \<Rightarrow> string \<Rightarrow> string" where
  "js_or_str a s = (case a of None \<Rightarrow> s | Some x \<Rightarrow> if x \<noteq> [] then x else s)"

text \<open>
  \<open>xs.slice(0, n)\<close> for an integer \<open>n\<close>: a negative end counts from the end of the array.
\<close>

definition slice0 :: "'a list \<Rightarrow> int \<Rightarrow> 'a list" where
  "slice0 xs n = (if n < 0 then take (nat (int (length xs) + n)) xs else take (nat n) xs)"

section \<open>Regular expressions\<close>

text \<open>
  The regular expressions of the source are built from character classes, sequence,
  alternation and the greedy star. \<open>ms r s\<close> lists the rests of \<open>s\<close> after every way
  \<open>r\<close> matches a prefix of \<open>s\<close>, in the order a backtracking matcher tries them, so its
  head is the match JavaScript takes at that position. As in JavaScript, an iteration of
  a star that consumes nothing is not repeated.
\<close>

datatype re = Cls "char list" | NCls "char list" | Eps | Seq re re | Alt re re | Star re

fun ms :: "re \<Rightarrow> string \<Rightarrow> string list" where
  "ms (Cls cs) s = (case s of [] \<Rightarrow> [] | c # t \<Rightarrow> if c \<in> set cs then [t] else [])"
| "ms (NCls cs) s = (case s of [] \<Rightarrow> [] | c # t \<Rightarrow> if c \<in> set cs then [] else [t])"
| "ms Eps s = [s]"
| "ms (Seq a b) s = concat (map (ms b) (ms a s))"
| "ms (Alt a b) s = ms a s @ ms b s"
| "ms (Star a) s =
     concat (map (\<lambda>t. if length t < length s then ms (Star a) t else []) (ms a s)) @ [s]"

definition seqs :: "re list \<Rightarrow> re" where
  "seqs rs = foldr Seq rs Eps"

definition chr :: "char \<Rightarrow> re" where
  "chr c = Cls [c]"

definition lit :: "string \<Rightarrow> re" where
  "lit s = seqs (map chr s)"

text \<open>A literal under the \<open>i\<close> flag: each character in either case.\<close>

definition lit_i :: "string \<Rightarrow> re" where
  "lit_i s = seqs (map (\<lambda>c. Cls [lower_char c, upper_char c]) s)"

definition alts :: "re list \<Rightarrow> re" where
  "alts rs = foldr Alt rs (Cls [])"

definition plus :: "re \<Rightarrow> re" where
  "plus r = Seq r (Star r)"

definition opt :: "re \<Rightarrow> re" where
  "opt r = Alt r Eps"

text \<open>The rest after the match at the start of \<open>s\<close>, if there is one.\<close>

definition match_here :: "re \<Rightarrow> string \<Rightarrow> string option" where
  "match_here r s = (case ms r s of [] \<Rightarrow> None | rest # _ \<Rightarrow> Some rest)"

text \<open>\<open>s.match(r)\<close> without the \<open>g\<close> flag: the text of the leftmost match.\<close>

fun regex_match :: "re \<Rightarrow> string \<Rightarrow> string option" where
  "regex_match r [] = (case match_here r [] of None \<Rightarrow> None | Some rest \<Rightarrow> Some [])"
| "regex_match r (c # cs) =
     (case match_here r (c # cs) of
        None \<Rightarrow> regex_match r cs
      | Some rest \<Rightarrow> Some (take (length (c # cs) - length rest) (c # cs)))"

text \<open>\<open>r.test(s)\<close>\<close>

definition regex_test :: "re \<Rightarrow> string \<Rightarrow> bool" where
  "regex_test r s = (regex_match r s \<noteq> None)"

text \<open>
  \<open>s.replace(r, rep)\<close> with the \<open>g\<close> flag: every match, leftmost first, is replaced
  and the search resumes after it; after an empty match it resumes one character on.
\<close>

function replace_all :: "re \<Rightarrow> string \<Rightarrow> string \<Rightarrow> string" where
  "replace_all r rep [] = (case match_here r [] of None \<Rightarrow> [] | Some rest \<Rightarrow> rep)"
| "replace_all r rep (c # cs) =
     (case match_here r (c # cs) of
        None \<Rightarrow> c # replace_all r rep cs
      | Some rest \<Rightarrow>
          if length rest < length (c # cs) then rep @ replace_all r rep rest
          else rep @ c # replace_all r rep cs)"
  by pat_completeness auto
termination
  by (relation "measure (\<lambda>(r, rep, s). length s)") auto

section \<open>The parsed document\<close>

text \<open>
  \<open>cheerio.load(html)\<close> parses the page into a tree of elements and text nodes. The
  parser is a library outside the repository: it is a parameter of the model, together
  with the serializer behind \<open>$(el).html()\<close>.
\<close>

datatype node = Element string "(string \<times> string) list" "node list" | Text string

record cheerio =
  load :: "string \<Rightarrow> node list"
  inner_html :: "node \<Rightarrow> string"

text \<open>An element followed by the elements below it, in document order.\<close>

fun elements :: "node \<Rightarrow> node list" where
  "elements (Text s) = []"
| "elements (Element t as cs) = Element t as cs # concat (map elements cs)"

fun textContent :: "node \<Rightarrow> string" where
  "textContent (Text s) = s"
| "textContent (Element t as cs) = concat (map textContent cs)"

fun node_attr :: "node \<Rightarrow> string \<Rightarrow> string option" where
  "node_attr (Text s) a = None"
| "node_attr (Element t as cs) a = map_of as a"

fun element_children :: "node \<Rightarrow> node list" where
  "element_children (Text s) = []"
| "element_children (Element t as cs) = concat (map (\<lambda>c. case c of Element t' as' cs' \<Rightarrow> [c] | Text s \<Rightarrow> []) cs)"

text \<open>
  The selectors the source uses: a tag name, \<open>#id\<close>, \<open>[a]\<close>, \<open>[a="v"]\<close>,
  \<open>[a*="v"]\<close>, and a tag name with one attribute test, as in \<open>meta[name="generator"]\<close>.
  In an HTML document the selector engine of cheerio compares the values of some
  attributes, \<open>rel\<close> among them, without regard to case: it lowers both sides.
  \<open>AttrEqI\<close> is \<open>[a="v"]\<close> for such an attribute and \<open>AttrEq\<close> for the others
  (\<open>name\<close>, \<open>property\<close>). The value searched for is in ASCII, and below code unit 256
  no character outside A to Z lowers to an ASCII letter, so \<open>toLowerCase\<close> on A to Z
  decides the comparison.
\<close>

datatype selector =
  Tag string
| Id string
| Attr string
| AttrEq string string
| AttrEqI string string
| AttrSub string string
| Both selector selector

fun matches :: "selector \<Rightarrow> node \<Rightarrow> bool" where
  "matches (Tag t) n = (case n of Element t' as cs \<Rightarrow> t' = t | Text s \<Rightarrow> False)"
| "matches (Id i) n = (node_attr n ''id'' = Some i)"
| "matches (Attr a) n = (node_attr n a \<noteq> None)"
| "matches (AttrEq a v) n = (node_attr n a = Some v)"
| "matches (AttrEqI a v) n =
     (case node_attr n a of None \<Rightarrow> False | Some x \<Rightarrow> toLowerCase x = toLowerCase v)"
| "matches (AttrSub a v) n = (case node_attr n a of None \<Rightarrow> False | Some x \<Rightarrow> v \<noteq> [] \<and> str_includes x v)"
| "matches (Both p q) n = (matches p n \<and> matches q n)"

text \<open>\<open>$(selector)\<close>: the matching elements of the document, in document order.\<close>

definition query :: "selector \<Rightarrow> node list \<Rightarrow> node list" where
  "query sel doc = filter (matches sel) (concat (map elements doc))"

text \<open>\<open>.text()\<close>, \<open>.attr(name)\<close> and \<open>.children()\<close> of a selection.\<close>

definition sel_text :: "node list \<Rightarrow> string" where
  "sel_text ns = concat (map textContent ns)"

definition sel_attr :: "node list \<Rightarrow> string \<Rightarrow> string option" where
  "sel_attr ns a = (case ns of [] \<Rightarrow> None | n # _ \<Rightarrow> node_attr n a)"

definition sel_children :: "node list \<Rightarrow> node list" where
  "sel_children ns = concat (map element_children ns)"

section \<open>Content extraction (web-scraper.ts)\<close>

record link =
  title :: string
  href :: string

record image =
  title :: string
  src :: string

record pageSummary =
  url :: string
  title :: string
  links :: "link list"
  images :: "image list"

text \<open>
  The fields \<open>keywords\<close>, \<open>next\<close> and \<open>prev\<close> of the metadata are \<open>page_keywords\<close>,
  \<open>next_page\<close> and \<open>prev_page\<close> here: the three names are reserved words.
\<close>

record pageMetadata =
  charset :: string
  title :: string
  description :: "string option"
  page_keywords :: "string option"
  author :: "string option"
  canonical :: "string option"
  robots :: "string option"
  og_title :: "string option"
  og_description :: "string option"
  og_image :: "string option"
  og_url :: "string option"
  og_type :: "string option"
  og_site_name :: "string option"
  twitter_card :: "string option"
  twitter_image :: "string option"
  next_page :: "string option"
  prev_page :: "string option"
  alternate :: "string option"

text \<open>
  The body of the \<open>$("a").each\<close> loop of \<open>fetchPageSummary\<close> and \<open>fetchLinks\<close>: the
  link an anchor contributes, none when its \<open>href\<close> is missing or empty.
\<close>

definition anchor_link :: "node \<Rightarrow> link list" where
  "anchor_link el =
     (let href = node_attr el ''href'';
          title = js_or_str (node_attr el ''title'') (trim (textContent el))
      in case href of
           None \<Rightarrow> []
         | Some h \<Rightarrow> if h \<noteq> [] then [\<lparr>link.title = title, href = h\<rparr>] else [])"

definition anchor_links :: "node list \<Rightarrow> link list" where
  "anchor_links doc = concat (map anchor_link (query (Tag ''a'') doc))"

text \<open>The body of the \<open>$("img").each\<close> loop of \<open>fetchPageSummary\<close>.\<close>

definition img_image :: "node \<Rightarrow> image list" where
  "img_image el =
     (let src = node_attr el ''src'';
          title = js_or_str (js_or (node_attr el ''alt'') (node_attr el ''title'')) []
      in case src of
           None \<Rightarrow> []
         | Some s \<Rightarrow> if s \<noteq> [] then [\<lparr>image.title = title, src = s\<rparr>] else [])"

definition img_images :: "node list \<Rightarrow> image list" where
  "img_images doc = concat (map img_image (query (Tag ''img'') doc))"

text \<open>
  The tail of \<open>fetchPageSummary\<close>: \<open>count ? xs.slice(0, count) : xs.slice(0, 10)\<close>. An
  omitted count is \<open>None\<close>; the test is for truthiness, and \<open>0\<close> is falsy.
\<close>

definition cap :: "int option \<Rightarrow> 'a list \<Rightarrow> 'a list" where
  "cap count xs =
     (case count of
        None \<Rightarrow> slice0 xs 10
      | Some n \<Rightarrow> if n \<noteq> 0 then slice0 xs n else slice0 xs 10)"

text \<open>The selectors \<open>meta[name="n"]\<close>, \<open>meta[property="p"]\<close> and \<open>link[rel="r"]\<close>.\<close>

abbreviation meta_name :: "string \<Rightarrow> selector" where
  "meta_name n \<equiv> Both (Tag ''meta'') (AttrEq ''name'' n)"

abbreviation meta_property :: "string \<Rightarrow> selector" where
  "meta_property p \<equiv> Both (Tag ''meta'') (AttrEq ''property'' p)"

abbreviation link_with_rel :: "string \<Rightarrow> selector" where
  "link_with_rel r \<equiv> Both (Tag ''link'') (AttrEqI ''rel'' r)"

definition getMetaByName :: "node list \<Rightarrow> string \<Rightarrow> string option" where
  "getMetaByName doc name = js_or (sel_attr (query (meta_name name) doc) ''content'') None"

definition getMetaByProperty :: "node list \<Rightarrow> string \<Rightarrow> string option" where
  "getMetaByProperty doc prop =
     js_or (sel_attr (query (meta_property prop) doc) ''content'')
       (js_or (sel_attr (query (meta_property prop) doc) ''href'') None)"

text \<open>\<open>$('link[rel="r"]').attr("href") || undefined\<close>\<close>

definition link_rel :: "node list \<Rightarrow> string \<Rightarrow> string option" where
  "link_rel doc rel = js_or (sel_attr (query (link_with_rel rel) doc) ''href'') None"

text \<open>The object \<open>fetchPageMetadata\<close> builds from the parsed document.\<close>

definition metadata_of :: "node list \<Rightarrow> pageMetadata" where
  "metadata_of doc =
     \<lparr>charset = js_or_str (sel_attr (query (Both (Tag ''meta'') (Attr ''charset'')) doc) ''charset'') ''utf-8'',
      pageMetadata.title = sel_text (query (Tag ''title'') doc),
      description = getMetaByName doc ''description'',
      page_keywords = getMetaByName doc ''keywords'',
      author = getMetaByName doc ''author'',
      canonical = link_rel doc ''canonical'',
      robots = getMetaByName doc ''robots'',
      og_title = getMetaByProperty doc ''og:title'',
      og_description = getMetaByProperty doc ''og:description'',
      og_image = getMetaByProperty doc ''og:image'',
      og_url = getMetaByProperty doc ''og:url'',
      og_type = getMetaByProperty doc ''og:type'',
      og_site_name = getMetaByProperty doc ''og:site_name'',
      twitter_card = getMetaByProperty doc ''twitter:card'',
      twitter_image = getMetaByProperty doc ''twitter:image'',
      next_page = link_rel doc ''next'',
      prev_page = link_rel doc ''prev'',
      alternate = link_rel doc ''alternate''\<rparr>"

text \<open>
  The chain of replacements \<open>fetchPageText\<close> applies to the text of the body, in the
  order of the source.
\<close>

definition ws :: re where
  "ws = Cls white_space"

definition nl :: re where
  "nl = chr LF"

definition vp_re :: re where
  "vp_re =
     seqs [lit ''window.__VP_'', plus (Cls (upper_chars @ ''_'')), lit ''__'', Star ws,
           lit ''='', Star ws, lit ''JSON.parse('', Cls [DQUOTE, SQUOTE],
           plus (NCls [DQUOTE, SQUOTE]), Cls [DQUOTE, SQUOTE], lit '')'', opt (lit '';'')]"

text \<open>\<open>/\s*\n\s*/\<close>, \<open>/\n{3,}/\<close> and \<open>/[ \t]+/\<close>\<close>

definition newline_ws_re :: re where
  "newline_ws_re = seqs [Star ws, nl, Star ws]"

definition newlines_re :: re where
  "newlines_re = seqs [nl, nl, nl, Star nl]"

definition blanks :: "char list" where
  "blanks = [CHR 0x20, TAB]"

definition blanks_re :: re where
  "blanks_re = plus (Cls blanks)"

definition normalizeText :: "string \<Rightarrow> string" where
  "normalizeText body_text =
     (let t1 = replace_all (lit [BACKSLASH, DQUOTE]) [DQUOTE] body_text;
          t2 = replace_all (lit [BACKSLASH, BACKSLASH]) [BACKSLASH] t1;
          t3 = replace_all (lit [BACKSLASH, CHR ''n'']) [LF] t2;
          t4 = replace_all (lit [BACKSLASH, CHR ''t'']) [TAB] t3;
          t5 = replace_all vp_re [] t4;
          t6 = replace_all newline_ws_re [LF] t5;
          t7 = replace_all newlines_re [LF, LF] t6;
          t8 = replace_all blanks_re [CHR 0x20] t7
      in trim t8)"

text \<open>
  A text with no blank line: no newline is followed by a newline. A tidy text: no newline
  is followed by white space.
\<close>

fun no_blank_line :: "string \<Rightarrow> bool" where
  "no_blank_line (a # b # t) = ((a \<noteq> LF \<or> b \<noteq> LF) \<and> no_blank_line (b # t))"
| "no_blank_line s = True"

fun tidy :: "string \<Rightarrow> bool" where
  "tidy (a # b # t) = ((a \<noteq> LF \<or> b \<notin> set white_space) \<and> tidy (b # t))"
| "tidy s = True"

section \<open>Page type detection\<close>

text \<open>
  The hints are fixed texts in the source; here each is a constructor. The Angular hint
  carries the value of the \<open>ng-version\<close> attribute and the framework hint the text the
  generator tag matched.
\<close>

datatype hint =
  MountPointHint
| HydrationHint
| ReactHint
| VueSSRHint
| AngularHint "string option"
| FrameworkHint string
| FewTextManyScriptsHint
| ScriptsOutweighTextHint
| NoscriptHint
| EmptyBodyHint

record pageTypeResult =
  isDynamic :: bool
  confidence :: rat
  hints :: "hint list"
  framework :: "string option"

text \<open>\<open>if (c) { score += w; hints.push(h); }\<close> on the pair of \<open>score\<close> and \<open>hints\<close>.\<close>

definition signal :: "bool \<Rightarrow> nat \<Rightarrow> hint \<Rightarrow> nat \<times> hint list \<Rightarrow> nat \<times> hint list" where
  "signal c w h s = (if c then (fst s + w, snd s @ [h]) else s)"

definition mountPoints :: "string list" where
  "mountPoints = [''root'', ''app'', ''__next'', ''nuxt'', ''__nuxt'', ''__NEXT'']"

definition hasMountPoint :: "node list \<Rightarrow> bool" where
  "hasMountPoint doc =
     list_ex (\<lambda>i. 0 < length (query (Id i) doc) \<or> 0 < length (query (AttrSub ''id'' i) doc))
       mountPoints"

text \<open>The hydration patterns are literal regular expressions, given by their source text.\<close>

definition hydrationPatterns :: "string list" where
  "hydrationPatterns =
     [''__NEXT_DATA__'', ''__NUXT__'', ''__INITIAL_STATE__'', ''__APOLLO_STATE__'',
      ''__REDUX_STATE__'', ''__VUE__'']"

definition hydrationMatches :: "string \<Rightarrow> string list" where
  "hydrationMatches html = filter (\<lambda>p. regex_test (lit p) html) hydrationPatterns"

text \<open>\<open>/(Next\.js|Nuxt|Gatsby|Vite|Astro|SvelteKit|Remix)/i\<close>\<close>

definition generator_re :: re where
  "generator_re =
     alts [lit_i ''Next.js'', lit_i ''Nuxt'', lit_i ''Gatsby'', lit_i ''Vite'', lit_i ''Astro'',
           lit_i ''SvelteKit'', lit_i ''Remix'']"

definition generator :: "node list \<Rightarrow> string" where
  "generator doc = js_or_str (sel_attr (query (meta_name ''generator'') doc) ''content'') []"

text \<open>The first group of the match, which is the whole match; \<open>None\<close> when there is none.\<close>

definition frameworkMatch :: "node list \<Rightarrow> string option" where
  "frameworkMatch doc = regex_match generator_re (generator doc)"

definition bodyText :: "node list \<Rightarrow> string" where
  "bodyText doc = trim (sel_text (query (Tag ''body'') doc))"

definition scriptCount :: "node list \<Rightarrow> nat" where
  "scriptCount doc = length (query (Tag ''script'') doc)"

definition scriptTotalLength :: "cheerio \<Rightarrow> node list \<Rightarrow> nat" where
  "scriptTotalLength ch doc =
     foldl (\<lambda>a b. a + b) 0 (map (\<lambda>el. length (inner_html ch el)) (query (Tag ''script'') doc))"

definition noscript :: "node list \<Rightarrow> string" where
  "noscript doc = toLowerCase (sel_text (query (Tag ''noscript'') doc))"

definition bodyChildren :: "node list \<Rightarrow> nat" where
  "bodyChildren doc = length (sel_children (query (Tag ''body'') doc))"

text \<open>
  \<open>Math.round(x * 100) / 100\<close>, where \<open>Math.round\<close> rounds a half upwards. The numbers
  of the source are doubles; the model computes with rationals. The score is a natural
  number, so the confidence is \<open>k / 10\<close> for a \<open>k\<close> from 0 to 10. In doubles the
  confidence is the double nearest to \<open>k / 10\<close>, the rounding gives that double back, and
  it compares with the double \<open>0.3\<close> as \<open>k\<close> compares with 3.
\<close>

definition round2 :: "rat \<Rightarrow> rat" where
  "round2 x = of_int \<lfloor>x * 100 + 1 / 2\<rfloor> / 100"

text \<open>
  The ternary that names the framework parses as
  \<open>(frameworkMatch?.[1] || find NEXT) ? "Next.js" : (find NUXT ? "Nuxt" : undefined)\<close>,
  since \<open>||\<close> binds tighter than \<open>?:\<close>.
\<close>

definition detectedFramework :: "string option \<Rightarrow> string list \<Rightarrow> string option" where
  "detectedFramework fm hm =
     (if truthy fm \<or> find (\<lambda>p. str_includes p ''NEXT'') hm \<noteq> None then Some ''Next.js''
      else if find (\<lambda>p. str_includes p ''NUXT'') hm \<noteq> None then Some ''Nuxt''
      else None)"

subsection \<open>\<open>detectPageType\<close> of web-scraper.ts\<close>

text \<open>Steps 1 to 7 of the function: the score and the hints after the last signal.\<close>

definition signals :: "cheerio \<Rightarrow> string \<Rightarrow> nat \<times> hint list" where
  "signals ch html =
     (let doc = load ch html;
          s1 = signal (hasMountPoint doc) 3 MountPointHint (0, []);
          s2 = signal (0 < length (hydrationMatches html)) (length (hydrationMatches html) * 2)
                 HydrationHint s1;
          s3 = signal (0 < length (query (Attr ''data-reactroot'') doc)
                        \<or> 0 < length (query (Attr ''data-reactid'') doc)) 2 ReactHint s2;
          s4 = signal (0 < length (query (Attr ''data-server-rendered'') doc)) 1 VueSSRHint s3;
          s5 = signal (0 < length (query (Attr ''ng-version'') doc)) 1
                 (AngularHint (sel_attr (query (Attr ''ng-version'') doc) ''ng-version'')) s4;
          s6 = signal (frameworkMatch doc \<noteq> None) 2
                 (FrameworkHint (case frameworkMatch doc of None \<Rightarrow> [] | Some m \<Rightarrow> m)) s5;
          s7 = signal (length (bodyText doc) < 100 \<and> 3 \<le> scriptCount doc) 2
                 FewTextManyScriptsHint s6;
          s8 = signal (50000 < scriptTotalLength ch doc \<and> length (bodyText doc) < 500) 2
                 ScriptsOutweighTextHint s7;
          s9 = signal (str_includes (noscript doc) ''javascript''
                        \<and> str_includes (noscript doc) ''enable'') 1 NoscriptHint s8;
          s10 = signal (bodyChildren doc = 0
                         \<or> (bodyChildren doc \<le> 2 \<and> length (bodyText doc) < 50)) 3
                  EmptyBodyHint s9
      in s10)"

text \<open>The rest of the function: confidence, \<open>isDynamic\<close>, the framework, the result.\<close>

definition detectPageType :: "cheerio \<Rightarrow> string \<Rightarrow> pageTypeResult" where
  "detectPageType ch html =
     (let doc = load ch html;
          score = fst (signals ch html);
          confidence = min (of_nat score / 10) 1;
          isDynamic = (3 / 10 \<le> confidence)
      in \<lparr>isDynamic = isDynamic,
          confidence = round2 confidence,
          hints = snd (signals ch html),
          framework = detectedFramework (frameworkMatch doc) (hydrationMatches html)\<rparr>)"

subsection \<open>\<open>detectPageType\<close> of fetch.ts\<close>

text \<open>
  fetch.ts holds an older, file-private copy of the function. It differs from the one in
  web-scraper.ts in three places: a mount point weighs 2, a nearly empty body weighs 1,
  and \<open>isDynamic\<close> is \<open>confidence > 0.3\<close>. \<open>signals_fetch\<close> is its steps 1 to 7.
\<close>

definition signals_fetch :: "cheerio \<Rightarrow> string \<Rightarrow> nat \<times> hint list" where
  "signals_fetch ch html =
     (let doc = load ch html;
          s1 = signal (hasMountPoint doc) 2 MountPointHint (0, []);
          s2 = signal (0 < length (hydrationMatches html)) (length (hydrationMatches html) * 2)
                 HydrationHint s1;
          s3 = signal (0 < length (query (Attr ''data-reactroot'') doc)
                        \<or> 0 < length (query (Attr ''data-reactid'') doc)) 2 ReactHint s2;
          s4 = signal (0 < length (query (Attr ''data-server-rendered'') doc)) 1 VueSSRHint s3;
          s5 = signal (0 < length (query (Attr ''ng-version'') doc)) 1
                 (AngularHint (sel_attr (query (Attr ''ng-version'') doc) ''ng-version'')) s4;
          s6 = signal (frameworkMatch doc \<noteq> None) 2
                 (FrameworkHint (case frameworkMatch doc of None \<Rightarrow> [] | Some m \<Rightarrow> m)) s5;
          s7 = signal (length (bodyText doc) < 100 \<and> 3 \<le> scriptCount doc) 2
                 FewTextManyScriptsHint s6;
          s8 = signal (50000 < scriptTotalLength ch doc \<and> length (bodyText doc) < 500) 2
                 ScriptsOutweighTextHint s7;
          s9 = signal (str_includes (noscript doc) ''javascript''
                        \<and> str_includes (noscript doc) ''enable'') 1 NoscriptHint s8;
          s10 = signal (bodyChildren doc = 0
                         \<or> (bodyChildren doc \<le> 2 \<and> length (bodyText doc) < 50)) 1
                  EmptyBodyHint s9
      in s10)"

definition detectPageType_fetch :: "cheerio \<Rightarrow> string \<Rightarrow> pageTypeResult" where
  "detectPageType_fetch ch html =
     (let doc = load ch html;
          score = fst (signals_fetch ch html);
          confidence = min (of_nat score / 10) 1;
          isDynamic = (3 / 10 < confidence)
      in \<lparr>isDynamic = isDynamic,
          confidence = round2 confidence,
          hints = snd (signals_fetch ch html),
          framework = detectedFramework (frameworkMatch doc) (hydrationMatches html)\<rparr>)"

section \<open>The four operations of web-scraper.ts\<close>

text \<open>
  The operations are asynchronous and reach the network and the browser. An operation is
  modelled by the effects it performs, in order, and its outcome: an error when
  \<open>fetch\<close> or the browser throws, the result otherwise. \<open>fetch_text\<close> is what
  \<open>fetch(url)\<close> followed by \<open>resp.text()\<close> yields and \<open>rendered\<close> what the browser
  yields for \<open>getRenderedHtml(url)\<close>. The parameter \<open>url\<close> of the source is \<open>u\<close>
  here, \<open>url\<close> being a field of the summary.
\<close>

datatype error = NetworkError | RenderError

datatype effect = Fetch string | Render string

record world =
  fetch_text :: "string \<Rightarrow> error + string"
  rendered :: "string \<Rightarrow> error + string"

type_synonym 'a outcome = "effect list \<times> (error + 'a)"

definition ret :: "'a \<Rightarrow> 'a outcome" where
  "ret x = ([], Inr x)"

text \<open>\<open>await\<close>: an error ends the operation, a value goes to the rest of it.\<close>

definition await :: "'a outcome \<Rightarrow> ('a \<Rightarrow> 'b outcome) \<Rightarrow> 'b outcome" where
  "await m f =
     (case snd m of
        Inl e \<Rightarrow> (fst m, Inl e)
      | Inr x \<Rightarrow> (fst m @ fst (f x), snd (f x)))"

definition fetch_html :: "world \<Rightarrow> string \<Rightarrow> string outcome" where
  "fetch_html w u = ([Fetch u], fetch_text w u)"

definition getRenderedHtml :: "world \<Rightarrow> string \<Rightarrow> string outcome" where
  "getRenderedHtml w u = ([Render u], rendered w u)"

definition fetchPageSummary ::
  "cheerio \<Rightarrow> world \<Rightarrow> string \<Rightarrow> int option \<Rightarrow> int option \<Rightarrow> pageSummary outcome" where
  "fetchPageSummary ch w u linkCount imageCount =
     await (fetch_html w u) (\<lambda>html.
       let doc = load ch html;
           title = sel_text (query (Tag ''title'') doc);
           links = anchor_links doc;
           images = img_images doc
       in ret \<lparr>url = u, pageSummary.title = title,
                links = cap linkCount links, images = cap imageCount images\<rparr>)"

definition fetchPageMetadata :: "cheerio \<Rightarrow> world \<Rightarrow> string \<Rightarrow> pageMetadata outcome" where
  "fetchPageMetadata ch w u =
     await (fetch_html w u) (\<lambda>html. ret (metadata_of (load ch html)))"

text \<open>
  \<open>forceHeadless ?? pageType.isDynamic\<close>: an omitted \<open>forceHeadless\<close> is \<open>None\<close>.
\<close>

definition useHeadless :: "bool option \<Rightarrow> pageTypeResult \<Rightarrow> bool" where
  "useHeadless forceHeadless pageType =
     (case forceHeadless of None \<Rightarrow> isDynamic pageType | Some b \<Rightarrow> b)"

text \<open>The result object \<open>{ links }\<close> is modelled by its one field.\<close>

definition fetchLinks :: "cheerio \<Rightarrow> world \<Rightarrow> string \<Rightarrow> bool option \<Rightarrow> link list outcome" where
  "fetchLinks ch w u forceHeadless =
     await (fetch_html w u) (\<lambda>html.
       let pageType = detectPageType ch html
       in await (if useHeadless forceHeadless pageType then getRenderedHtml w u else ret html)
            (\<lambda>finalHtml. ret (anchor_links (load ch finalHtml))))"

text \<open>The result object \<open>{ text }\<close> is modelled by its one field.\<close>

definition fetchPageText :: "cheerio \<Rightarrow> world \<Rightarrow> string \<Rightarrow> bool option \<Rightarrow> string outcome" where
  "fetchPageText ch w u forceHeadless =
     await (fetch_html w u) (\<lambda>html.
       let pageType = detectPageType ch html
       in await (if useHeadless forceHeadless pageType then getRenderedHtml w u else ret html)
            (\<lambda>finalHtml. ret (normalizeText (sel_text (query (Tag ''body'') (load ch finalHtml))))))"

section \<open>The shared browser (browser.ts)\<close>

text \<open>
  \<open>browser\<close> and \<open>stealthScript\<close> are variables of the module. Browser instances are
  numbered in the order \<open>puppeteer.launch\<close> is called; \<open>running\<close> lists the instances
  that are connected. \<open>launches\<close> and \<open>fetches\<close> count the calls of \<open>puppeteer.launch\<close>
  and the fetches of the stealth script.
\<close>

record session =
  browser :: "nat option"
  stealthScript :: "string option"
  launches :: nat
  fetches :: nat
  running :: "nat list"

text \<open>
  A call of \<open>getBrowser\<close> runs without interruption from one \<open>await\<close> to the next, and
  other calls may run in between. The points where a call waits, as far as the variables
  of the module are concerned: for \<open>puppeteer.launch\<close>; for the fetch of the stealth
  script; for the rest of \<open>createBrowser\<close>, after which \<open>getBrowser\<close> stores the
  instance; for \<open>browser.newPage\<close> on the stored instance. The steps of
  \<open>createBrowser\<close> that set up the page of the call touch no variable of the module and
  are part of the step they follow. Every call of the browser and of \<open>fetch\<close> succeeds.
\<close>

datatype pc =
  Start bool
| Launching bool nat
| FetchingStealth nat
| Finishing nat
| Reusing nat
| Done nat

definition connected :: "session \<Rightarrow> nat \<Rightarrow> bool" where
  "connected s b = (b \<in> set (running s))"

text \<open>
  One step of a call. \<open>Start stealth\<close> is the entry of \<open>getBrowser\<close>, with the
  \<open>stealth\<close> option of its configuration: the test
  \<open>browser === null || !browser.connected\<close>, then the call of \<open>puppeteer.launch\<close> or of
  \<open>browser.newPage\<close>. \<open>stealth_body\<close> is the text the stealth script URL serves.
\<close>

definition step :: "string \<Rightarrow> pc \<Rightarrow> session \<Rightarrow> pc \<times> session" where
  "step stealth_body p s =
     (case p of
        Start stealth \<Rightarrow>
          (case browser s of
             None \<Rightarrow> (Launching stealth (launches s), s\<lparr>launches := launches s + 1\<rparr>)
           | Some b \<Rightarrow>
               if connected s b then (Reusing b, s)
               else (Launching stealth (launches s), s\<lparr>launches := launches s + 1\<rparr>))
      | Launching stealth i \<Rightarrow>
          (if stealth then
             (case stealthScript s of
                None \<Rightarrow> (FetchingStealth i, s\<lparr>fetches := fetches s + 1, running := running s @ [i]\<rparr>)
              | Some t \<Rightarrow> (Finishing i, s\<lparr>running := running s @ [i]\<rparr>))
           else (Finishing i, s\<lparr>running := running s @ [i]\<rparr>))
      | FetchingStealth i \<Rightarrow> (Finishing i, s\<lparr>stealthScript := Some stealth_body\<rparr>)
      | Finishing i \<Rightarrow> (Done i, s\<lparr>browser := Some i\<rparr>)
      | Reusing b \<Rightarrow> (Done b, s)
      | Done b \<Rightarrow> (Done b, s))"

text \<open>
  The calls in flight and the module state. A schedule names, step by step, the call that
  runs next; a number that names no call is skipped.
\<close>

fun run :: "string \<Rightarrow> nat list \<Rightarrow> pc list \<times> session \<Rightarrow> pc list \<times> session" where
  "run body [] cfg = cfg"
| "run body (i # sched) (pcs, s) =
     (if i < length pcs
      then run body sched ((pcs[i := fst (step body (pcs ! i) s)]), snd (step body (pcs ! i) s))
      else run body sched (pcs, s))"

definition fresh :: session where
  "fresh = \<lparr>browser = None, stealthScript = None, launches = 0, fetches = 0, running = []\<rparr>"

section \<open>Sample pages\<close>

text \<open>
  A parser for the examples: it knows the listed pages by their text, and the inner HTML
  of a script element is its text. The documents are the trees \<open>cheerio.load\<close> builds:
  an \<open>html\<close> element with a \<open>head\<close> and a \<open>body\<close>.
\<close>

definition sample_cheerio :: "(string \<times> node list) list \<Rightarrow> cheerio" where
  "sample_cheerio known =
     \<lparr>load = (\<lambda>html. case map_of known html of None \<Rightarrow> [] | Some doc \<Rightarrow> doc),
      inner_html = textContent\<rparr>"

definition page :: "node list \<Rightarrow> node list \<Rightarrow> node list" where
  "page head_nodes body_nodes =
     [Element ''html'' [] [Element ''head'' [] head_nodes, Element ''body'' [] body_nodes]]"

definition empty_html :: string where
  "empty_html = ''<body></body>''"

definition empty_doc :: "node list" where
  "empty_doc = page [] []"

definition mount_html :: string where
  "mount_html = ''<div id=root></div>''"

definition mount_doc :: "node list" where
  "mount_doc = page [] [Element ''div'' [(''id'', ''root'')] []]"

definition gatsby_html :: string where
  "gatsby_html = ''<meta name=generator content=Gatsby>''"

definition gatsby_doc :: "node list" where
  "gatsby_doc = page [Element ''meta'' [(''name'', ''generator''), (''content'', ''Gatsby'')] []] []"

definition og_html :: string where
  "og_html = ''<meta property=og:title content=T>''"

definition og_doc :: "node list" where
  "og_doc = page [Element ''meta'' [(''property'', ''og:title''), (''content'', ''T'')] []] []"

text \<open>
  The head \<open><link rel="NEXT" href="/n"><link rel="Canonical" href="/c">\<close>: the values of
  \<open>rel\<close> are not in lower case.
\<close>

definition rel_doc :: "node list" where
  "rel_doc =
     page [Element ''link'' [(''rel'', ''NEXT''), (''href'', ''/n'')] [],
           Element ''link'' [(''rel'', ''Canonical''), (''href'', ''/c'')] []] []"

definition anchor :: "string \<Rightarrow> string \<Rightarrow> node" where
  "anchor h t = Element ''a'' [(''href'', h)] [Text t]"

text \<open>Fifteen anchors; the first and the third share their \<open>href\<close>.\<close>

definition anchors_html :: string where
  "anchors_html = ''<a href=/a>1</a><a href=/b>2</a><a href=/a>3</a><a href=/c>4</a><a href=/d>5</a>''
     @ ''<a href=/e>6</a><a href=/f>7</a><a href=/g>8</a><a href=/h>9</a><a href=/i>10</a>''
     @ ''<a href=/j>11</a><a href=/k>12</a><a href=/l>13</a><a href=/m>14</a><a href=/n>15</a>''"

definition anchors_doc :: "node list" where
  "anchors_doc =
     page []
       [anchor ''/a'' ''1'', anchor ''/b'' ''2'', anchor ''/a'' ''3'', anchor ''/c'' ''4'',
        anchor ''/d'' ''5'', anchor ''/e'' ''6'', anchor ''/f'' ''7'', anchor ''/g'' ''8'',
        anchor ''/h'' ''9'', anchor ''/i'' ''10'', anchor ''/j'' ''11'', anchor ''/k'' ''12'',
        anchor ''/l'' ''13'', anchor ''/m'' ''14'', anchor ''/n'' ''15'']"

definition lnk :: "string \<Rightarrow> string \<Rightarrow> link" where
  "lnk t h = \<lparr>link.title = t, href = h\<rparr>"

definition rendered_html :: string where
  "rendered_html = ''<div id=root><a href=/x title=X>ignored</a></div>''"

definition rendered_doc :: "node list" where
  "rendered_doc =
     page []
       [Element ''div'' [(''id'', ''root'')]
          [Element ''a'' [(''href'', ''/x''), (''title'', ''X'')] [Text ''ignored'']]]"

definition pages :: "(string \<times> node list) list" where
  "pages =
     [(empty_html, empty_doc), (mount_html, mount_doc), (gatsby_html, gatsby_doc),
      (og_html, og_doc), (anchors_html, anchors_doc), (rendered_html, rendered_doc)]"

text \<open>
  A world for the examples: the static and the rendered text of the listed URLs; any
  other URL fails.
\<close>

definition sample_world :: "(string \<times> string) list \<Rightarrow> (string \<times> string) list \<Rightarrow> world" where
  "sample_world static dynamic =
     \<lparr>fetch_text = (\<lambda>u. case map_of static u of None \<Rightarrow> Inl NetworkError | Some h \<Rightarrow> Inr h),
      rendered = (\<lambda>u. case map_of dynamic u of None \<Rightarrow> Inl RenderError | Some h \<Rightarrow> Inr h)\<rparr>"

definition web :: world where
  "web =
     sample_world
       [(''http://spa/'', empty_html), (''http://list/'', anchors_html), (''http://og/'', og_html)]
       [(''http://spa/'', rendered_html)]"

text \<open>
  The body text of claim C3: \<open>Hello\<close>, a backslash, \<open>n\<close>, \<open>World\<close>, three blank lines
  and \<open>End\<close>.
\<close>

definition text_in :: string where
  "text_in = ''Hello'' @ [BACKSLASH, CHR ''n''] @ ''World'' @ [LF, LF, LF, LF] @ ''End''"

text \<open>The same text with the backslash doubled.\<close>

definition text_in2 :: string where
  "text_in2 =
     ''Hello'' @ [BACKSLASH, BACKSLASH, CHR ''n''] @ ''World'' @ [LF, LF, LF, LF] @ ''End''"

section \<open>Confidence and the dynamic threshold\<close>

lemma round2_tenths: "round2 (min (of_nat n / 10) 1) = min (of_nat n / 10) 1"
proof (cases "n \<le> 10")
  case True
  have "(of_nat n / 10 :: rat) * 100 + 1 / 2 = of_int (int (10 * n)) + 1 / 2"
    by simp
  then have "\<lfloor>(of_nat n / 10 :: rat) * 100 + 1 / 2\<rfloor> = int (10 * n)"
    by (simp only: floor_add_int) linarith
  then show ?thesis
    using True unfolding round2_def by (simp add: min_def)
next
  case False
  then have "min (of_nat n / 10 :: rat) 1 = 1"
    by (simp add: min_def)
  moreover have "\<lfloor>(1::rat) * 100 + 1 / 2\<rfloor> = 100"
    by linarith
  ultimately show ?thesis
    unfolding round2_def by simp
qed

lemma confidence_web:
  "confidence (detectPageType ch html) = min (of_nat (fst (signals ch html)) / 10) 1"
  by (simp add: detectPageType_def Let_def round2_tenths)

lemma isDynamic_web: "isDynamic (detectPageType ch html) = (3 \<le> fst (signals ch html))"
  by (simp add: detectPageType_def Let_def min_def)

lemma load_empty: "load (sample_cheerio pages) empty_html = empty_doc"
  by code_simp

lemma load_mount: "load (sample_cheerio pages) mount_html = mount_doc"
  by code_simp

lemma empty_doc_facts:
  "bodyChildren empty_doc = 0"
  "\<not> hasMountPoint empty_doc"
  "query (Attr ''data-reactroot'') empty_doc = []"
  "query (Attr ''data-reactid'') empty_doc = []"
  "query (Attr ''data-server-rendered'') empty_doc = []"
  "query (Attr ''ng-version'') empty_doc = []"
  "frameworkMatch empty_doc = None"
  "scriptCount empty_doc = 0"
  "scriptTotalLength (sample_cheerio pages) empty_doc = 0"
  "noscript empty_doc = []"
  "bodyText empty_doc = []"
  by code_simp+

lemma empty_html_hydration: "hydrationMatches empty_html = []"
  by code_simp

lemma mount_doc_facts:
  "bodyChildren mount_doc = 1"
  "hasMountPoint mount_doc"
  "query (Attr ''data-reactroot'') mount_doc = []"
  "query (Attr ''data-reactid'') mount_doc = []"
  "query (Attr ''data-server-rendered'') mount_doc = []"
  "query (Attr ''ng-version'') mount_doc = []"
  "frameworkMatch mount_doc = None"
  "scriptCount mount_doc = 0"
  "scriptTotalLength (sample_cheerio pages) mount_doc = 0"
  "noscript mount_doc = []"
  "bodyText mount_doc = []"
  by code_simp+

lemma mount_html_hydration: "hydrationMatches mount_html = []"
  by code_simp

text \<open>
  Claim C1. For every HTML text and every parser, the confidence \<open>detectPageType\<close>
  returns is the score capped at 10 and divided by 10, so it lies between 0 and 1, and
  \<open>isDynamic\<close> is \<open>confidence \<ge> 0.3\<close>.
\<close>

theorem detectPageType_confidence:
  "0 \<le> confidence (detectPageType ch html) \<and> confidence (detectPageType ch html) \<le> 1
   \<and> confidence (detectPageType ch html) = of_nat (min (fst (signals ch html)) 10) / 10
   \<and> isDynamic (detectPageType ch html) = (3 / 10 \<le> confidence (detectPageType ch html))"
  unfolding confidence_web isDynamic_web
  by (auto simp: min_def)

section \<open>The empty body\<close>

lemma signals_quiet:
  assumes "bodyChildren (load ch html) = 0"
    and "\<not> hasMountPoint (load ch html)"
    and "hydrationMatches html = []"
    and "query (Attr ''data-reactroot'') (load ch html) = []"
    and "query (Attr ''data-reactid'') (load ch html) = []"
    and "query (Attr ''data-server-rendered'') (load ch html) = []"
    and "query (Attr ''ng-version'') (load ch html) = []"
    and "frameworkMatch (load ch html) = None"
    and "scriptCount (load ch html) < 3"
    and "scriptTotalLength ch (load ch html) \<le> 50000"
    and "\<not> (str_includes (noscript (load ch html)) ''javascript''
            \<and> str_includes (noscript (load ch html)) ''enable'')"
  shows "signals ch html = (3, [EmptyBodyHint])"
  using assms by (simp add: signals_def Let_def signal_def)

text \<open>Whatever else a page signals, a body with no child element scores at least 3.\<close>

lemma signals_empty_body: "bodyChildren (load ch html) = 0 \<Longrightarrow> 3 \<le> fst (signals ch html)"
  by (simp add: signals_def Let_def signal_def)

lemma isDynamic_empty: "isDynamic (detectPageType (sample_cheerio pages) empty_html)"
  unfolding isDynamic_web
  by (rule signals_empty_body) (simp add: load_empty empty_doc_facts)

text \<open>
  Claim C5. On a page whose body has no child and which gives no other signal,
  \<open>detectPageType\<close> scores 3 for the nearly empty body alone: the confidence is 0.3,
  which reaches the threshold, the page is dynamic, and the only hint is that of the
  empty body.
\<close>

theorem empty_body_alone:
  assumes "bodyChildren (load ch html) = 0"
    and "\<not> hasMountPoint (load ch html)"
    and "hydrationMatches html = []"
    and "query (Attr ''data-reactroot'') (load ch html) = []"
    and "query (Attr ''data-reactid'') (load ch html) = []"
    and "query (Attr ''data-server-rendered'') (load ch html) = []"
    and "query (Attr ''ng-version'') (load ch html) = []"
    and "frameworkMatch (load ch html) = None"
    and "scriptCount (load ch html) < 3"
    and "scriptTotalLength ch (load ch html) \<le> 50000"
    and "\<not> (str_includes (noscript (load ch html)) ''javascript''
            \<and> str_includes (noscript (load ch html)) ''enable'')"
  shows "confidence (detectPageType ch html) = 3 / 10
    \<and> 3 / 10 \<le> confidence (detectPageType ch html)
    \<and> isDynamic (detectPageType ch html)
    \<and> hints (detectPageType ch html) = [EmptyBodyHint]"
proof -
  have web: "signals ch html = (3, [EmptyBodyHint])"
    using assms by (rule signals_quiet)
  have "hints (detectPageType ch html) = [EmptyBodyHint]"
    by (simp add: detectPageType_def Let_def web)
  then show ?thesis
    by (simp add: confidence_web isDynamic_web web)
qed

theorem empty_body_alone_witness:
  "confidence (detectPageType (sample_cheerio pages) empty_html) = 3 / 10
   \<and> 3 / 10 \<le> confidence (detectPageType (sample_cheerio pages) empty_html)
   \<and> isDynamic (detectPageType (sample_cheerio pages) empty_html)
   \<and> hints (detectPageType (sample_cheerio pages) empty_html) = [EmptyBodyHint]"
  by (rule empty_body_alone)
    (simp_all add: load_empty empty_doc_facts empty_html_hydration)

section \<open>The older copy in fetch.ts\<close>

text \<open>
  The copy of \<open>detectPageType\<close> in fetch.ts is not exported and is called only from the
  debugging block at the end of that file. Its confidence has the same form; its
  \<open>isDynamic\<close> is \<open>confidence > 0.3\<close>, and a nearly empty body weighs 1. On the page with
  one empty \<open>div\<close> of id \<open>root\<close> it scores 3 and reports a static page; on the empty page
  it scores 1.
\<close>

lemma confidence_fetch:
  "confidence (detectPageType_fetch ch html) = min (of_nat (fst (signals_fetch ch html)) / 10) 1"
  by (simp add: detectPageType_fetch_def Let_def round2_tenths)

lemma isDynamic_fetch:
  "isDynamic (detectPageType_fetch ch html) = (3 < fst (signals_fetch ch html))"
  by (simp add: detectPageType_fetch_def Let_def min_def)

lemma detectPageType_fetch_confidence:
  "0 \<le> confidence (detectPageType_fetch ch html)
   \<and> confidence (detectPageType_fetch ch html) \<le> 1
   \<and> isDynamic (detectPageType_fetch ch html)
       = (3 / 10 < confidence (detectPageType_fetch ch html))"
  unfolding confidence_fetch isDynamic_fetch
  by (auto simp: min_def)

lemma signals_fetch_mount:
  "signals_fetch (sample_cheerio pages) mount_html = (3, [MountPointHint, EmptyBodyHint])"
  by (simp add: signals_fetch_def Let_def signal_def load_mount mount_doc_facts
      mount_html_hydration)

lemma detectPageType_fetch_mount_page:
  "confidence (detectPageType_fetch (sample_cheerio pages) mount_html) = 3 / 10
   \<and> \<not> isDynamic (detectPageType_fetch (sample_cheerio pages) mount_html)"
  by (simp add: confidence_fetch isDynamic_fetch signals_fetch_mount)

lemma signals_fetch_empty:
  "signals_fetch (sample_cheerio pages) empty_html = (1, [EmptyBodyHint])"
  by (simp add: signals_fetch_def Let_def signal_def load_empty empty_doc_facts
      empty_html_hydration)

lemma detectPageType_fetch_empty_page:
  "confidence (detectPageType_fetch (sample_cheerio pages) empty_html) = 1 / 10
   \<and> \<not> isDynamic (detectPageType_fetch (sample_cheerio pages) empty_html)"
  by (simp add: confidence_fetch isDynamic_fetch signals_fetch_empty)

section \<open>The framework name\<close>

lemma load_gatsby: "load (sample_cheerio pages) gatsby_html = gatsby_doc"
  by code_simp

lemma gatsby_facts:
  "frameworkMatch gatsby_doc = Some ''Gatsby''"
  "hydrationMatches gatsby_html = []"
  by code_simp+

text \<open>
  Whatever name the generator tag matched, the framework is reported as Next.js: the
  matched text is only tested for truthiness.
\<close>

lemma framework_of_generator:
  "truthy (frameworkMatch (load ch html)) \<Longrightarrow> framework (detectPageType ch html) = Some ''Next.js''"
  by (simp add: detectPageType_def Let_def detectedFramework_def)

lemma framework_undefined:
  "frameworkMatch (load ch html) = None \<Longrightarrow> hydrationMatches html = []
   \<Longrightarrow> framework (detectPageType ch html) = None"
  by (simp add: detectPageType_def Let_def detectedFramework_def truthy_def)

text \<open>
  Claim C2 on a page whose generator tag reads \<open>Gatsby\<close> and which holds no hydration
  marker: the generator matches \<open>Gatsby\<close>, and the framework field is \<open>Next.js\<close>.
\<close>

theorem generator_tag_named_nextjs:
  "frameworkMatch (load (sample_cheerio pages) gatsby_html) = Some ''Gatsby''
   \<and> hydrationMatches gatsby_html = []
   \<and> framework (detectPageType (sample_cheerio pages) gatsby_html) = Some ''Next.js''"
  by (simp add: detectPageType_def Let_def detectedFramework_def truthy_def load_gatsby
      gatsby_facts)

section \<open>Text normalisation\<close>

declare ms.simps(6) [simp del]

lemma LF_space: "LF \<in> set white_space"
  by (simp add: LF_def white_space_def)

lemma ms_star_cls_Nil: "ms (Star (Cls cs)) [] = [[]]"
  by (simp add: ms.simps(6))

lemma ms_star_cls_in: "c \<in> set cs \<Longrightarrow> ms (Star (Cls cs)) (c # t) = ms (Star (Cls cs)) t @ [c # t]"
  by (simp add: ms.simps(6))

lemma ms_star_cls_out: "c \<notin> set cs \<Longrightarrow> ms (Star (Cls cs)) (c # t) = [c # t]"
  by (simp add: ms.simps(6))

lemma ms_star_cls_hd:
  "ms (Star (Cls cs)) s \<noteq> [] \<and> hd (ms (Star (Cls cs)) s) = dropWhile (\<lambda>c. c \<in> set cs) s"
  by (induction s) (simp_all add: ms_star_cls_Nil ms_star_cls_in ms_star_cls_out hd_append)

lemma concat_map_eps: "concat (map (ms Eps) xs) = xs"
  by (induction xs) simp_all

lemma ms_newline_ws_re_Nil: "ms newline_ws_re [] = []"
  by (simp add: newline_ws_re_def seqs_def ws_def nl_def chr_def ms_star_cls_Nil)

lemma ms_nl_rest:
  "ms (Seq nl (Seq (Star ws) Eps)) s =
     (case s of [] \<Rightarrow> [] | c # t \<Rightarrow> if c = LF then ms (Star ws) t else [])"
  by (cases s) (simp_all add: nl_def chr_def concat_map_eps)

lemma ms_newline_ws_re_unfold: "ms newline_ws_re s = concat (map (ms (Seq nl (Seq (Star ws) Eps))) (ms (Star ws) s))"
  by (simp add: newline_ws_re_def seqs_def)

lemma ms_newline_ws_re_Cons:
  "ms newline_ws_re (c # t) =
     (if is_space c then ms newline_ws_re t @ (if c = LF then ms (Star ws) t else []) else [])"
proof (cases "is_space c")
  case True
  then have "c \<in> set white_space"
    by (simp add: is_space_def)
  then have "ms (Star ws) (c # t) = ms (Star ws) t @ [c # t]"
    unfolding ws_def by (rule ms_star_cls_in)
  then have "ms newline_ws_re (c # t) = ms newline_ws_re t @ ms (Seq nl (Seq (Star ws) Eps)) (c # t)"
    by (simp add: ms_newline_ws_re_unfold del: ms.simps(1-5))
  then show ?thesis
    using True by (simp add: ms_nl_rest del: ms.simps(1-5))
next
  case False
  then have out: "c \<notin> set white_space"
    by (simp add: is_space_def)
  then have "c \<noteq> LF"
    using LF_space by auto
  from out have "ms (Star ws) (c # t) = [c # t]"
    unfolding ws_def by (rule ms_star_cls_out)
  then have "ms newline_ws_re (c # t) = ms (Seq nl (Seq (Star ws) Eps)) (c # t)"
    by (simp add: ms_newline_ws_re_unfold del: ms.simps(1-5))
  then show ?thesis
    using False \<open>c \<noteq> LF\<close> by (simp add: ms_nl_rest del: ms.simps(1-5))
qed

lemma hd_ms_star_ws: "\<exists>xs. ms (Star ws) t = dropWhile is_space t # xs"
proof -
  have "(\<lambda>c. c \<in> set white_space) = is_space"
    by (simp add: is_space_def [abs_def])
  then have h: "ms (Star ws) t \<noteq> [] \<and> hd (ms (Star ws) t) = dropWhile is_space t"
    using ms_star_cls_hd [of white_space t] by (simp add: ws_def)
  then show ?thesis
    by (cases "ms (Star ws) t") auto
qed

lemma is_space_LF: "is_space LF"
  by (simp add: is_space_def LF_space)

lemma match_here_newline_ws_re:
  "match_here newline_ws_re s =
     (if LF \<in> set (takeWhile is_space s) then Some (dropWhile is_space s) else None)"
proof (induction s)
  case Nil
  show ?case by (simp add: match_here_def ms_newline_ws_re_Nil)
next
  case (Cons c t)
  show ?case
  proof (cases "is_space c")
    case False
    then show ?thesis by (simp add: match_here_def ms_newline_ws_re_Cons)
  next
    case True
    note sp = this
    show ?thesis
    proof (cases "LF \<in> set (takeWhile is_space t)")
      case True
      then have "match_here newline_ws_re t = Some (dropWhile is_space t)" using Cons by simp
      then obtain rest where "ms newline_ws_re t = dropWhile is_space t # rest"
        by (auto simp: match_here_def split: list.splits)
      then show ?thesis using sp True by (simp add: match_here_def ms_newline_ws_re_Cons is_space_LF)
    next
      case False
      then have "match_here newline_ws_re t = None" using Cons by simp
      then have e: "ms newline_ws_re t = []" by (auto simp: match_here_def split: list.splits)
      obtain xs where x: "ms (Star ws) t = dropWhile is_space t # xs"
        using hd_ms_star_ws by blast
      show ?thesis using sp False e x
        by (simp add: match_here_def ms_newline_ws_re_Cons is_space_LF)
    qed
  qed
qed


lemma replace_newline_ws_re_head:
  "\<not> is_space c \<Longrightarrow> replace_all newline_ws_re rep (c # cs) = c # replace_all newline_ws_re rep cs"
  by (simp add: match_here_newline_ws_re)

lemma length_dropWhile_less: "P c \<Longrightarrow> length (dropWhile P (c # cs)) < length (c # cs)"
  by (simp add: less_Suc_eq_le length_dropWhile_le)

lemma replace_newline_ws_re_space:
  assumes "LF \<in> set (takeWhile is_space (c # cs))"
  shows "replace_all newline_ws_re rep (c # cs) = rep @ replace_all newline_ws_re rep (dropWhile is_space (c # cs))"
proof -
  have "is_space c"
    using assms by (cases "is_space c") auto
  then have "length (dropWhile is_space (c # cs)) < length (c # cs)"
    by (rule length_dropWhile_less)
  then show ?thesis
    using assms by (simp add: match_here_newline_ws_re del: dropWhile.simps takeWhile.simps)
qed

lemma tidy_Cons: "tidy (c # s) = ((c = LF \<longrightarrow> s = [] \<or> \<not> is_space (hd s)) \<and> tidy s)"
  by (cases s) (auto simp: is_space_def)

lemma replace_newline_ws_re_starts:
  "s \<noteq> [] \<Longrightarrow> \<not> is_space (hd s) \<Longrightarrow> replace_all newline_ws_re [LF] s \<noteq> [] \<and> hd (replace_all newline_ws_re [LF] s) = hd s"
  by (cases s) (simp_all add: replace_newline_ws_re_head del: replace_all.simps)

lemma tidy_replace_newline_ws_re: "tidy (replace_all newline_ws_re [LF] s)"
proof (induction "length s" arbitrary: s rule: less_induct)
  case less
  show ?case
  proof (cases s)
    case Nil
    then show ?thesis by (simp add: match_here_newline_ws_re)
  next
    case (Cons c cs)
    show ?thesis
    proof (cases "LF \<in> set (takeWhile is_space (c # cs))")
      case True
      then have sp: "is_space c"
        by (cases "is_space c") auto
      let ?rest = "dropWhile is_space (c # cs)"
      have shorter: "length ?rest < length s"
        unfolding Cons using sp by (rule length_dropWhile_less)
      have eq: "replace_all newline_ws_re [LF] s = LF # replace_all newline_ws_re [LF] ?rest"
        unfolding Cons using replace_newline_ws_re_space [OF True, of "[LF]"] by simp
      have t: "tidy (replace_all newline_ws_re [LF] ?rest)"
        using less shorter by blast
      have "?rest = [] \<or> \<not> is_space (hd ?rest)"
        using hd_dropWhile [of is_space "c # cs"] by blast
      then have "replace_all newline_ws_re [LF] ?rest = [] \<or> \<not> is_space (hd (replace_all newline_ws_re [LF] ?rest))"
      proof
        assume "?rest = []"
        then show ?thesis by (simp add: match_here_newline_ws_re)
      next
        assume n: "\<not> is_space (hd ?rest)"
        show ?thesis
        proof (cases "?rest = []")
          case True
          then show ?thesis by (simp add: match_here_newline_ws_re)
        next
          case False
          then show ?thesis using replace_newline_ws_re_starts [OF False n] n by simp
        qed
      qed
      then show ?thesis
        unfolding eq using t by (simp add: tidy_Cons)
    next
      case False
      then have m: "match_here newline_ws_re (c # cs) = None"
        by (simp add: match_here_newline_ws_re del: takeWhile.simps)
      have "c \<noteq> LF"
        using False is_space_LF by (cases "is_space c") auto
      moreover have "tidy (replace_all newline_ws_re [LF] cs)"
        using less Cons by simp
      ultimately show ?thesis
        unfolding Cons using m by (simp add: tidy_Cons)
    qed
  qed
qed

lemma tidy_match_newlines_re: "tidy s \<Longrightarrow> match_here newlines_re s = None"
proof (cases s)
  case Nil
  then show ?thesis by (simp add: match_here_def newlines_re_def seqs_def nl_def chr_def)
next
  case (Cons c cs)
  assume t: "tidy s"
  show ?thesis
  proof (cases cs)
    case Nil
    then show ?thesis using Cons by (simp add: match_here_def newlines_re_def seqs_def nl_def chr_def)
  next
    case (Cons d ds)
    then have "c \<noteq> LF \<or> d \<noteq> LF"
      using t \<open>s = c # cs\<close> LF_space by auto
    then show ?thesis
      using Cons \<open>s = c # cs\<close> by (auto simp: match_here_def newlines_re_def seqs_def nl_def chr_def)
  qed
qed

lemma replace_newlines_re_tidy: "tidy s \<Longrightarrow> replace_all newlines_re rep s = s"
proof (induction s)
  case Nil
  then show ?case by (simp add: tidy_match_newlines_re)
next
  case (Cons c cs)
  then have "tidy cs" by (simp add: tidy_Cons)
  then show ?case using Cons by (simp add: tidy_match_newlines_re)
qed

lemma no_blank_line_Cons: "no_blank_line (c # s) = ((c = LF \<longrightarrow> s = [] \<or> hd s \<noteq> LF) \<and> no_blank_line s)"
  by (cases s) auto

lemma tidy_no_blank_line: "tidy s \<Longrightarrow> no_blank_line s"
  by (induction s rule: no_blank_line.induct) (use LF_space in auto)

lemma no_blank_line_dropWhile: "no_blank_line s \<Longrightarrow> no_blank_line (dropWhile P s)"
  by (induction s) (auto simp: no_blank_line_Cons)

lemma no_blank_line_append:
  "no_blank_line (xs @ ys) =
     (no_blank_line xs \<and> no_blank_line ys \<and> (xs = [] \<or> ys = [] \<or> last xs \<noteq> LF \<or> hd ys \<noteq> LF))"
  by (induction xs) (auto simp: no_blank_line_Cons hd_append)

lemma no_blank_line_rev: "no_blank_line (rev s) = no_blank_line s"
  by (induction s) (auto simp: no_blank_line_Cons no_blank_line_append last_rev)

lemma no_blank_line_trim: "no_blank_line s \<Longrightarrow> no_blank_line (trim s)"
  by (simp add: trim_def no_blank_line_rev no_blank_line_dropWhile)

lemma match_here_blanks_re:
  "match_here blanks_re s =
     (case s of [] \<Rightarrow> None
      | c # t \<Rightarrow> if c \<in> set blanks then Some (dropWhile (\<lambda>c. c \<in> set blanks) t) else None)"
proof (cases s)
  case Nil
  then show ?thesis by (simp add: match_here_def blanks_re_def plus_def)
next
  case (Cons c t)
  obtain x xs where "ms (Star (Cls blanks)) t = x # xs" and "x = dropWhile (\<lambda>c. c \<in> set blanks) t"
    using ms_star_cls_hd [of blanks t] by (cases "ms (Star (Cls blanks)) t") auto
  then show ?thesis
    using Cons by (simp add: match_here_def blanks_re_def plus_def)
qed

lemma replace_blanks_re_Cons:
  "replace_all blanks_re rep (c # cs) =
     (if c \<in> set blanks then rep @ replace_all blanks_re rep (dropWhile (\<lambda>c. c \<in> set blanks) cs)
      else c # replace_all blanks_re rep cs)"
  by (simp add: match_here_blanks_re less_Suc_eq_le length_dropWhile_le)

lemma replace_blanks_re_Nil: "replace_all blanks_re rep [] = []"
  by (simp add: match_here_blanks_re)

lemma LF_not_blank: "LF \<notin> set blanks" "CHR 0x20 \<noteq> LF"
  by (simp_all add: blanks_def LF_def TAB_def)

lemma no_blank_line_replace_blanks_re: "no_blank_line s \<Longrightarrow> no_blank_line (replace_all blanks_re [CHR 0x20] s)"
proof (induction "length s" arbitrary: s rule: less_induct)
  case less
  show ?case
  proof (cases s)
    case Nil
    then show ?thesis by (simp add: replace_blanks_re_Nil del: replace_all.simps)
  next
    case (Cons c cs)
    show ?thesis
    proof (cases "c \<in> set blanks")
      case True
      let ?rest = "dropWhile (\<lambda>c. c \<in> set blanks) cs"
      have "length ?rest < length s"
        unfolding Cons by (simp add: less_Suc_eq_le length_dropWhile_le)
      moreover have "no_blank_line ?rest"
        using less.prems Cons by (simp add: no_blank_line_Cons no_blank_line_dropWhile)
      ultimately have "no_blank_line (replace_all blanks_re [CHR 0x20] ?rest)"
        using less.hyps by blast
      then show ?thesis
        unfolding Cons using True
        by (simp add: replace_blanks_re_Cons no_blank_line_Cons LF_not_blank del: replace_all.simps)
    next
      case False
      have nb: "no_blank_line cs"
        using less.prems Cons by (simp add: no_blank_line_Cons)
      then have ih: "no_blank_line (replace_all blanks_re [CHR 0x20] cs)"
        using less.hyps Cons by simp
      have "c = LF \<longrightarrow> replace_all blanks_re [CHR 0x20] cs = [] \<or> hd (replace_all blanks_re [CHR 0x20] cs) \<noteq> LF"
      proof (cases cs)
        case Nil
        then show ?thesis by (simp add: replace_blanks_re_Nil del: replace_all.simps)
      next
        case (Cons d ds)
        have "c = LF \<longrightarrow> d \<noteq> LF"
          using less.prems \<open>s = c # cs\<close> Cons by (simp add: no_blank_line_Cons)
        then show ?thesis
          unfolding Cons
          by (simp add: replace_blanks_re_Cons LF_not_blank del: replace_all.simps)
      qed
      then show ?thesis
        unfolding Cons using False ih
        by (simp add: replace_blanks_re_Cons no_blank_line_Cons del: replace_all.simps)
    qed
  qed
qed

text \<open>
  Whatever the body text, the normalised text holds no blank line at all: after the
  replacement of \<open>\s*\n\s*\<close> no newline is followed by white space.
\<close>

lemma normalizeText_no_blank_line: "no_blank_line (normalizeText s)"
proof -
  show ?thesis
    unfolding normalizeText_def Let_def
    by (intro no_blank_line_trim no_blank_line_replace_blanks_re)
      (simp add: replace_newlines_re_tidy tidy_replace_newline_ws_re tidy_no_blank_line)
qed

text \<open>
  Claim C3 on its input, with the backslash single or doubled: the text comes out as
  \<open>Hello\<close>, \<open>World\<close> and \<open>End\<close> on three lines, with no blank line before \<open>End\<close>.
  The replacement of \<open>\s*\n\s*\<close> takes the whole run of newlines, since \<open>\s\<close> matches a
  newline, and leaves nothing for the replacement of \<open>\n{3,}\<close>.
\<close>

theorem normalizeText_drops_blank_line:
  "normalizeText text_in = ''Hello'' @ [LF] @ ''World'' @ [LF] @ ''End''
   \<and> normalizeText text_in2 = ''Hello'' @ [LF] @ ''World'' @ [LF] @ ''End''
   \<and> normalizeText text_in \<noteq> ''Hello'' @ [LF] @ ''World'' @ [LF, LF] @ ''End''"
  by code_simp

section \<open>Rendering\<close>

lemma fetchLinks_ok:
  assumes "fetch_text w u = Inr html"
  shows "fetchLinks ch w u forceHeadless =
     (if useHeadless forceHeadless (detectPageType ch html)
      then ([Fetch u, Render u],
            case rendered w u of
              Inl e \<Rightarrow> Inl e
            | Inr rhtml \<Rightarrow> Inr (anchor_links (load ch rhtml)))
      else ([Fetch u], Inr (anchor_links (load ch html))))"
  using assms
  by (simp add: fetchLinks_def await_def fetch_html_def getRenderedHtml_def ret_def Let_def
      split: sum.splits)

lemma fetchPageText_ok:
  assumes "fetch_text w u = Inr html"
  shows "fetchPageText ch w u forceHeadless =
     (if useHeadless forceHeadless (detectPageType ch html)
      then ([Fetch u, Render u],
            case rendered w u of
              Inl e \<Rightarrow> Inl e
            | Inr rhtml \<Rightarrow> Inr (normalizeText (sel_text (query (Tag ''body'') (load ch rhtml)))))
      else ([Fetch u], Inr (normalizeText (sel_text (query (Tag ''body'') (load ch html))))))"
  using assms
  by (simp add: fetchPageText_def await_def fetch_html_def getRenderedHtml_def ret_def Let_def
      split: sum.splits)

lemma fetchLinks_static:
  assumes "fetch_text w u = Inr html"
    and "\<not> useHeadless forceHeadless (detectPageType ch html)"
  shows "fetchLinks ch w u forceHeadless = ([Fetch u], Inr (anchor_links (load ch html)))"
  using assms
  by (simp add: fetchLinks_def await_def fetch_html_def getRenderedHtml_def ret_def Let_def)

lemma load_anchors: "load (sample_cheerio pages) anchors_html = anchors_doc"
  by code_simp

lemma load_og: "load (sample_cheerio pages) og_html = og_doc"
  by code_simp

lemma load_rendered: "load (sample_cheerio pages) rendered_html = rendered_doc"
  by code_simp

lemma web_facts:
  "fetch_text web ''http://spa/'' = Inr empty_html"
  "rendered web ''http://spa/'' = Inr rendered_html"
  "fetch_text web ''http://list/'' = Inr anchors_html"
  "fetch_text web ''http://og/'' = Inr og_html"
  by code_simp+

lemma rendered_doc_links: "anchor_links rendered_doc = [lnk ''X'' ''/x'']"
  by code_simp

lemma rendered_doc_text:
  "normalizeText (sel_text (query (Tag ''body'') rendered_doc)) = ''ignored''"
  by code_simp

lemma empty_doc_links: "anchor_links empty_doc = []"
  by code_simp

text \<open>
  Claim C6. When the static fetch answers, the decision to render is \<open>forceHeadless\<close>
  where the caller gives it and \<open>isDynamic\<close> of the static HTML otherwise. When the
  decision is true, \<open>fetchLinks\<close> and \<open>fetchPageText\<close> call the browser and extract from
  the rendered HTML, or end with the error of the browser; when it is false, they extract
  from the static HTML and do not call the browser.
\<close>

theorem render_decision:
  assumes "fetch_text w u = Inr html"
  shows "useHeadless forceHeadless (detectPageType ch html)
           = (case forceHeadless of Some b \<Rightarrow> b | None \<Rightarrow> isDynamic (detectPageType ch html))
    \<and> fetchLinks ch w u forceHeadless =
        (if useHeadless forceHeadless (detectPageType ch html)
         then ([Fetch u, Render u],
               case rendered w u of
                 Inl e \<Rightarrow> Inl e
               | Inr rhtml \<Rightarrow> Inr (anchor_links (load ch rhtml)))
         else ([Fetch u], Inr (anchor_links (load ch html))))
    \<and> fetchPageText ch w u forceHeadless =
        (if useHeadless forceHeadless (detectPageType ch html)
         then ([Fetch u, Render u],
               case rendered w u of
                 Inl e \<Rightarrow> Inl e
               | Inr rhtml \<Rightarrow>
                   Inr (normalizeText (sel_text (query (Tag ''body'') (load ch rhtml)))))
         else ([Fetch u], Inr (normalizeText (sel_text (query (Tag ''body'') (load ch html))))))"
  using fetchLinks_ok [OF assms] fetchPageText_ok [OF assms]
  by (simp add: useHeadless_def split: option.splits)

theorem render_decision_witness:
  "fetch_text web ''http://spa/'' = Inr empty_html
   \<and> rendered web ''http://spa/'' = Inr rendered_html
   \<and> fetchLinks (sample_cheerio pages) web ''http://spa/'' None
       = ([Fetch ''http://spa/'', Render ''http://spa/''], Inr [lnk ''X'' ''/x''])
   \<and> fetchLinks (sample_cheerio pages) web ''http://spa/'' (Some False)
       = ([Fetch ''http://spa/''], Inr [])
   \<and> fetchPageText (sample_cheerio pages) web ''http://spa/'' None
       = ([Fetch ''http://spa/'', Render ''http://spa/''], Inr ''ignored'')"
proof -
  have f: "fetch_text web ''http://spa/'' = Inr empty_html"
    by (rule web_facts)
  have r: "rendered web ''http://spa/'' = Inr rendered_html"
    by (rule web_facts)
  note c = render_decision [OF f, where ch = "sample_cheerio pages"]
  have "useHeadless None (detectPageType (sample_cheerio pages) empty_html)"
    using c [of None] by (simp add: isDynamic_empty)
  moreover have "\<not> useHeadless (Some False) (detectPageType (sample_cheerio pages) empty_html)"
    using c [of "Some False"] by simp
  ultimately show ?thesis
    using f r c [of None] c [of "Some False"]
    by (simp add: load_rendered load_empty rendered_doc_links rendered_doc_text empty_doc_links)
qed

text \<open>
  Claim C7. \<open>fetchPageSummary\<close> and \<open>fetchPageMetadata\<close> perform one effect, the static
  fetch, for every URL and every option; no call of the browser is among their effects,
  and what the browser would answer does not change their outcome.
\<close>

theorem summary_metadata_static_only:
  "fst (fetchPageSummary ch w u linkCount imageCount) = [Fetch u]
   \<and> fst (fetchPageMetadata ch w u) = [Fetch u]
   \<and> Render v \<notin> set (fst (fetchPageSummary ch w u linkCount imageCount))
   \<and> Render v \<notin> set (fst (fetchPageMetadata ch w u))
   \<and> fetchPageSummary ch (w\<lparr>rendered := r\<rparr>) u linkCount imageCount
       = fetchPageSummary ch w u linkCount imageCount
   \<and> fetchPageMetadata ch (w\<lparr>rendered := r\<rparr>) u = fetchPageMetadata ch w u"
  by (simp add: fetchPageSummary_def fetchPageMetadata_def await_def fetch_html_def ret_def
      Let_def split: sum.splits)

section \<open>Link and image lists\<close>

lemma fetchPageSummary_ok:
  assumes "fetch_text w u = Inr html"
  shows "fetchPageSummary ch w u linkCount imageCount =
     ([Fetch u],
      Inr \<lparr>url = u, pageSummary.title = sel_text (query (Tag ''title'') (load ch html)),
           links = cap linkCount (anchor_links (load ch html)),
           images = cap imageCount (img_images (load ch html))\<rparr>)"
  using assms
  by (simp add: fetchPageSummary_def await_def fetch_html_def ret_def Let_def)

lemma cap_simps:
  "cap None xs = take 10 xs"
  "cap (Some 0) xs = take 10 xs"
  "0 < n \<Longrightarrow> cap (Some n) xs = take (nat n) xs"
  by (simp_all add: cap_def slice0_def)

lemma anchor_hrefs:
  "map href (concat (map anchor_link els))
     = map (\<lambda>el. the (node_attr el ''href'')) (filter (\<lambda>el. truthy (node_attr el ''href'')) els)"
  by (induction els) (auto simp: anchor_link_def truthy_def Let_def split: option.splits)

lemma img_srcs:
  "map src (concat (map img_image els))
     = map (\<lambda>el. the (node_attr el ''src'')) (filter (\<lambda>el. truthy (node_attr el ''src'')) els)"
  by (induction els) (auto simp: img_image_def truthy_def Let_def split: option.splits)

lemma anchors_doc_links:
  "anchor_links anchors_doc =
     [lnk ''1'' ''/a'', lnk ''2'' ''/b'', lnk ''3'' ''/a'', lnk ''4'' ''/c'', lnk ''5'' ''/d'',
      lnk ''6'' ''/e'', lnk ''7'' ''/f'', lnk ''8'' ''/g'', lnk ''9'' ''/h'', lnk ''10'' ''/i'',
      lnk ''11'' ''/j'', lnk ''12'' ''/k'', lnk ''13'' ''/l'', lnk ''14'' ''/m'', lnk ''15'' ''/n'']"
  by code_simp

text \<open>
  Claim C4, as the code has it. When the static fetch answers, the links and images of
  \<open>fetchPageSummary\<close> are the first \<open>n\<close> of the page for a cap \<open>n > 0\<close> and the first
  10 for an omitted cap. The links are those of the anchors with a non-empty \<open>href\<close>, in
  document order, one for each such anchor, and likewise the images. \<open>fetchLinks\<close> takes
  no cap and returns every link of the page.
\<close>

theorem link_image_lists:
  assumes "fetch_text w u = Inr html" and "doc = load ch html"
  shows "(\<exists>r. snd (fetchPageSummary ch w u linkCount imageCount) = Inr r
      \<and> (case linkCount of
           None \<Rightarrow> links r = take 10 (anchor_links doc)
         | Some n \<Rightarrow> 0 < n \<longrightarrow> links r = take (nat n) (anchor_links doc))
      \<and> (case imageCount of
           None \<Rightarrow> images r = take 10 (img_images doc)
         | Some n \<Rightarrow> 0 < n \<longrightarrow> images r = take (nat n) (img_images doc)))
    \<and> map href (anchor_links doc)
        = map (\<lambda>el. the (node_attr el ''href''))
            (filter (\<lambda>el. truthy (node_attr el ''href'')) (query (Tag ''a'') doc))
    \<and> map src (img_images doc)
        = map (\<lambda>el. the (node_attr el ''src''))
            (filter (\<lambda>el. truthy (node_attr el ''src'')) (query (Tag ''img'') doc))
    \<and> fetchLinks ch w u (Some False) = ([Fetch u], Inr (anchor_links doc))"
proof -
  have "\<not> useHeadless (Some False) (detectPageType ch html)"
    by (simp add: useHeadless_def)
  then have "fetchLinks ch w u (Some False) = ([Fetch u], Inr (anchor_links doc))"
    unfolding assms(2) by (rule fetchLinks_static [OF assms(1)])
  then show ?thesis
    unfolding assms(2)
    by (simp add: fetchPageSummary_ok [OF assms(1)] cap_simps anchor_links_def anchor_hrefs
        img_images_def img_srcs split: option.splits)
qed

theorem link_image_lists_witness:
  "fetch_text web ''http://list/'' = Inr anchors_html
   \<and> anchors_doc = load (sample_cheerio pages) anchors_html
   \<and> (0::int) < 5
   \<and> (\<exists>r. snd (fetchPageSummary (sample_cheerio pages) web ''http://list/'' (Some 5) None) = Inr r
         \<and> links r =
             [lnk ''1'' ''/a'', lnk ''2'' ''/b'', lnk ''3'' ''/a'', lnk ''4'' ''/c'', lnk ''5'' ''/d''])"
proof -
  have f: "fetch_text web ''http://list/'' = Inr anchors_html"
    by (rule web_facts)
  have d: "anchors_doc = load (sample_cheerio pages) anchors_html"
    by (simp add: load_anchors)
  have "\<exists>r. snd (fetchPageSummary (sample_cheerio pages) web ''http://list/'' (Some 5) None) = Inr r
      \<and> (case Some (5::int) of
           None \<Rightarrow> links r = take 10 (anchor_links anchors_doc)
         | Some n \<Rightarrow> 0 < n \<longrightarrow> links r = take (nat n) (anchor_links anchors_doc))
      \<and> (case None of
           None \<Rightarrow> images r = take 10 (img_images anchors_doc)
         | Some n \<Rightarrow> 0 < n \<longrightarrow> images r = take (nat n) (img_images anchors_doc))"
    using link_image_lists [OF f d, where linkCount = "Some 5" and imageCount = None]
    by (elim conjE)
  then show ?thesis
    using f d by (auto simp: anchors_doc_links)
qed

text \<open>
  \<open>fetchLinks\<close> on the page with fifteen anchors returns fifteen links, more than the
  default cap of 10.
\<close>

theorem fetchLinks_uncapped_counterexample:
  "\<exists>ls. snd (fetchLinks (sample_cheerio pages) web ''http://list/'' (Some False)) = Inr ls
     \<and> length ls = 15 \<and> \<not> length ls \<le> 10"
proof -
  have f: "fetch_text web ''http://list/'' = Inr anchors_html"
    by (rule web_facts)
  have "\<not> useHeadless (Some False) (detectPageType (sample_cheerio pages) anchors_html)"
    by (simp add: useHeadless_def)
  then have "fetchLinks (sample_cheerio pages) web ''http://list/'' (Some False)
      = ([Fetch ''http://list/''], Inr (anchor_links anchors_doc))"
    using fetchLinks_static [OF f] by (simp add: load_anchors)
  then show ?thesis
    by (simp add: anchors_doc_links)
qed

text \<open>
  Claim C10. A link cap or an image cap of 0 gives what an omitted cap gives: when the
  static fetch answers, the first 10 links and the first 10 images of the page.
\<close>

theorem zero_cap_is_default:
  assumes "fetch_text w u = Inr html"
  shows "fetchPageSummary ch w u (Some 0) imageCount = fetchPageSummary ch w u None imageCount
    \<and> fetchPageSummary ch w u linkCount (Some 0) = fetchPageSummary ch w u linkCount None
    \<and> (\<exists>r. snd (fetchPageSummary ch w u (Some 0) (Some 0)) = Inr r
          \<and> links r = take 10 (anchor_links (load ch html))
          \<and> images r = take 10 (img_images (load ch html)))"
  by (simp add: fetchPageSummary_ok [OF assms] cap_simps)

theorem zero_cap_is_default_witness:
  "fetch_text web ''http://list/'' = Inr anchors_html
   \<and> (\<exists>r. snd (fetchPageSummary (sample_cheerio pages) web ''http://list/'' (Some 0) (Some 0))
           = Inr r
         \<and> links r =
             [lnk ''1'' ''/a'', lnk ''2'' ''/b'', lnk ''3'' ''/a'', lnk ''4'' ''/c'', lnk ''5'' ''/d'',
              lnk ''6'' ''/e'', lnk ''7'' ''/f'', lnk ''8'' ''/g'', lnk ''9'' ''/h'', lnk ''10'' ''/i''])"
proof -
  have f: "fetch_text web ''http://list/'' = Inr anchors_html"
    by (rule web_facts)
  have "\<exists>r. snd (fetchPageSummary (sample_cheerio pages) web ''http://list/'' (Some 0) (Some 0))
          = Inr r
      \<and> links r = take 10 (anchor_links (load (sample_cheerio pages) anchors_html))
      \<and> images r = take 10 (img_images (load (sample_cheerio pages) anchors_html))"
    using zero_cap_is_default
      [OF f, where ch = "sample_cheerio pages" and imageCount = None and linkCount = None]
    by (elim conjE)
  then show ?thesis
    using f by (auto simp: load_anchors anchors_doc_links)
qed

section \<open>Metadata\<close>

lemma getMetaByName_absent: "query (meta_name n) doc = [] \<Longrightarrow> getMetaByName doc n = None"
  by (simp add: getMetaByName_def sel_attr_def js_or_def truthy_def)

lemma getMetaByProperty_absent:
  "query (meta_property p) doc = [] \<Longrightarrow> getMetaByProperty doc p = None"
  by (simp add: getMetaByProperty_def sel_attr_def js_or_def truthy_def)

lemma link_rel_absent: "query (link_with_rel r) doc = [] \<Longrightarrow> link_rel doc r = None"
  by (simp add: link_rel_def sel_attr_def js_or_def truthy_def)

lemma js_or_not_empty: "js_or a None \<noteq> Some []"
  by (auto simp: js_or_def truthy_def)

lemma js_or2_not_empty: "js_or a (js_or b None) \<noteq> Some []"
  by (auto simp: js_or_def truthy_def)

lemma getMetaByName_not_empty: "getMetaByName doc n \<noteq> Some []"
  by (simp add: getMetaByName_def js_or_not_empty)

lemma getMetaByProperty_not_empty: "getMetaByProperty doc p \<noteq> Some []"
  by (simp add: getMetaByProperty_def js_or2_not_empty)

lemma link_rel_not_empty: "link_rel doc r \<noteq> Some []"
  by (simp add: link_rel_def js_or_not_empty)

lemma getMetaByProperty_content:
  "sel_attr (query (meta_property p) doc) ''content'' = Some c \<Longrightarrow> c \<noteq> []
   \<Longrightarrow> getMetaByProperty doc p = Some c"
  by (simp add: getMetaByProperty_def js_or_def truthy_def)

lemma fetchPageMetadata_ok:
  "fetch_text w u = Inr html
   \<Longrightarrow> fetchPageMetadata ch w u = ([Fetch u], Inr (metadata_of (load ch html)))"
  by (simp add: fetchPageMetadata_def await_def fetch_html_def ret_def)

lemmas field_absent = getMetaByName_absent getMetaByProperty_absent link_rel_absent

lemmas field_not_empty = getMetaByName_not_empty getMetaByProperty_not_empty link_rel_not_empty

text \<open>
  The value of \<open>rel\<close> is matched in any case: the links of \<open>rel_doc\<close> are found, and
  the fields read from tags the document does not have are absent.
\<close>

lemma metadata_rel_any_case:
  "next_page (metadata_of rel_doc) = Some ''/n''
   \<and> canonical (metadata_of rel_doc) = Some ''/c''
   \<and> prev_page (metadata_of rel_doc) = None
   \<and> alternate (metadata_of rel_doc) = None"
  by code_simp

lemma og_doc_facts:
  "query (meta_name ''description'') og_doc = []"
  "sel_attr (query (meta_property ''og:title'') og_doc) ''content'' = Some ''T''"
  by code_simp+

text \<open>
  Claim C8. When the static fetch answers, each optional field of the metadata is absent
  if no element of the document matches the selector of the field, and no optional field
  is ever the empty string. \<open>og_title\<close> is the non-empty \<open>content\<close> of the first
  \<open>meta[property="og:title"]\<close> element.
\<close>

theorem metadata_absent_fields:
  assumes "fetch_text w u = Inr html" and "doc = load ch html"
  shows "\<exists>m. snd (fetchPageMetadata ch w u) = Inr m
    \<and> (query (meta_name ''description'') doc = [] \<longrightarrow> description m = None)
    \<and> (query (meta_name ''keywords'') doc = [] \<longrightarrow> page_keywords m = None)
    \<and> (query (meta_name ''author'') doc = [] \<longrightarrow> author m = None)
    \<and> (query (link_with_rel ''canonical'') doc = [] \<longrightarrow> canonical m = None)
    \<and> (query (meta_name ''robots'') doc = [] \<longrightarrow> robots m = None)
    \<and> (query (meta_property ''og:title'') doc = [] \<longrightarrow> og_title m = None)
    \<and> (query (meta_property ''og:description'') doc = [] \<longrightarrow> og_description m = None)
    \<and> (query (meta_property ''og:image'') doc = [] \<longrightarrow> og_image m = None)
    \<and> (query (meta_property ''og:url'') doc = [] \<longrightarrow> og_url m = None)
    \<and> (query (meta_property ''og:type'') doc = [] \<longrightarrow> og_type m = None)
    \<and> (query (meta_property ''og:site_name'') doc = [] \<longrightarrow> og_site_name m = None)
    \<and> (query (meta_property ''twitter:card'') doc = [] \<longrightarrow> twitter_card m = None)
    \<and> (query (meta_property ''twitter:image'') doc = [] \<longrightarrow> twitter_image m = None)
    \<and> (query (link_with_rel ''next'') doc = [] \<longrightarrow> next_page m = None)
    \<and> (query (link_with_rel ''prev'') doc = [] \<longrightarrow> prev_page m = None)
    \<and> (query (link_with_rel ''alternate'') doc = [] \<longrightarrow> alternate m = None)
    \<and> description m \<noteq> Some [] \<and> page_keywords m \<noteq> Some [] \<and> author m \<noteq> Some []
    \<and> canonical m \<noteq> Some [] \<and> robots m \<noteq> Some [] \<and> og_title m \<noteq> Some []
    \<and> og_description m \<noteq> Some [] \<and> og_image m \<noteq> Some [] \<and> og_url m \<noteq> Some []
    \<and> og_type m \<noteq> Some [] \<and> og_site_name m \<noteq> Some [] \<and> twitter_card m \<noteq> Some []
    \<and> twitter_image m \<noteq> Some [] \<and> next_page m \<noteq> Some [] \<and> prev_page m \<noteq> Some []
    \<and> alternate m \<noteq> Some []
    \<and> (\<forall>c. sel_attr (query (meta_property ''og:title'') doc) ''content'' = Some c \<and> c \<noteq> []
           \<longrightarrow> og_title m = Some c)"
  unfolding fetchPageMetadata_ok [OF assms(1)] assms(2)
  by (simp add: metadata_of_def field_absent field_not_empty getMetaByProperty_content)

theorem metadata_absent_fields_witness:
  "fetch_text web ''http://og/'' = Inr og_html
   \<and> og_doc = load (sample_cheerio pages) og_html
   \<and> (\<exists>m. snd (fetchPageMetadata (sample_cheerio pages) web ''http://og/'') = Inr m
         \<and> og_title m = Some ''T'' \<and> description m = None)"
proof -
  have f: "fetch_text web ''http://og/'' = Inr og_html"
    by (rule web_facts)
  have d: "og_doc = load (sample_cheerio pages) og_html"
    by (simp add: load_og)
  have "\<exists>m. snd (fetchPageMetadata (sample_cheerio pages) web ''http://og/'') = Inr m
         \<and> og_title m = Some ''T'' \<and> description m = None"
    using metadata_absent_fields [OF f d]
    apply (elim exE conjE)
    apply (intro exI conjI)
      apply assumption
     apply (simp add: og_doc_facts)
    apply (simp add: og_doc_facts)
    done
  with f d show ?thesis
    by blast
qed

section \<open>Two calls of \<open>getBrowser\<close> at once\<close>

text \<open>
  From any state with no browser stored, two calls that both take their first step before
  either stores its instance launch two browsers. A call that starts when a connected
  browser is stored launches nothing.
\<close>

lemma two_starts_launch_twice:
  "browser s = None
   \<Longrightarrow> launches (snd (run body [0, 1] ([Start a, Start b], s))) = launches s + 2"
  by (simp add: step_def)

lemma start_reuses_stored:
  "browser s = Some b \<Longrightarrow> connected s b \<Longrightarrow> step body (Start a) s = (Reusing b, s)"
  by (simp add: step_def)

text \<open>
  Claim C9 on two calls of \<open>getBrowser\<close> made one after the other before either has
  finished, with no browser stored: each passes the test \<open>browser === null\<close> and calls
  \<open>puppeteer.launch\<close>, so two browsers are launched and each call ends with its own;
  the stealth script is fetched twice as well. Run one after the other, the same two
  calls launch one browser.
\<close>

theorem concurrent_getBrowser_launches_twice:
  "launches (snd (run ''js'' [0, 1, 0, 1, 0, 1, 0, 1] ([Start True, Start True], fresh))) = 2
   \<and> fetches (snd (run ''js'' [0, 1, 0, 1, 0, 1, 0, 1] ([Start True, Start True], fresh))) = 2
   \<and> fst (run ''js'' [0, 1, 0, 1, 0, 1, 0, 1] ([Start True, Start True], fresh)) = [Done 0, Done 1]
   \<and> launches (snd (run ''js'' [0, 0, 0, 0, 1, 1, 1, 1] ([Start True, Start True], fresh))) = 1
   \<and> fst (run ''js'' [0, 0, 0, 0, 1, 1, 1, 1] ([Start True, Start True], fresh)) = [Done 0, Done 0]"
  by code_simp

end
